theory Spec2Isabelle
  imports Complex_Main
begin

section \<open>Numeric model\<close>

text \<open>
  The program computes with Python floats and NumPy float64 values. A float64 is modelled
  as a real number or one of the three IEEE special values; arithmetic on finite values is
  exact (rounding, silent overflow to an infinity and the sign of zero are outside the
  model). The special values are kept because NumPy returns them, with a warning and no
  exception, where plain Python arithmetic would raise. The exceptions of plain Python
  arithmetic are kept: the division of Python floats by zero and the overflow of the
  float power \<open>**\<close>.
\<close>

datatype npfloat = Fin real | PInf | NInf | NaN

datatype error = ZeroDivisionError | OverflowError | UnboundLocalError

fun is_finite :: "npfloat \<Rightarrow> bool" where
  "is_finite (Fin a) = True"
| "is_finite PInf = False"
| "is_finite NInf = False"
| "is_finite NaN = False"

fun np_neg :: "npfloat \<Rightarrow> npfloat" where
  "np_neg (Fin a) = Fin (- a)"
| "np_neg PInf = NInf"
| "np_neg NInf = PInf"
| "np_neg NaN = NaN"

fun np_add :: "npfloat \<Rightarrow> npfloat \<Rightarrow> npfloat" where
  "np_add (Fin a) (Fin b) = Fin (a + b)"
| "np_add NaN y = NaN"
| "np_add x NaN = NaN"
| "np_add PInf NInf = NaN"
| "np_add NInf PInf = NaN"
| "np_add PInf y = PInf"
| "np_add NInf y = NInf"
| "np_add (Fin a) PInf = PInf"
| "np_add (Fin a) NInf = NInf"

definition np_sub :: "npfloat \<Rightarrow> npfloat \<Rightarrow> npfloat" where
  "np_sub x y = np_add x (np_neg y)"

text \<open>Multiplication of an infinity by a finite factor: zero gives NaN, otherwise the sign rule.\<close>

definition inf_times :: "npfloat \<Rightarrow> real \<Rightarrow> npfloat" where
  "inf_times i b = (if b = 0 then NaN else if 0 < b then i else np_neg i)"

fun np_mul :: "npfloat \<Rightarrow> npfloat \<Rightarrow> npfloat" where
  "np_mul (Fin a) (Fin b) = Fin (a * b)"
| "np_mul NaN y = NaN"
| "np_mul x NaN = NaN"
| "np_mul PInf PInf = PInf"
| "np_mul PInf NInf = NInf"
| "np_mul NInf PInf = NInf"
| "np_mul NInf NInf = PInf"
| "np_mul PInf (Fin b) = inf_times PInf b"
| "np_mul NInf (Fin b) = inf_times NInf b"
| "np_mul (Fin a) PInf = inf_times PInf a"
| "np_mul (Fin a) NInf = inf_times NInf a"

text \<open>
  NumPy division: a zero divisor is no error. \<open>0/0\<close> is NaN and \<open>a/0\<close> is an infinity
  with the sign of \<open>a\<close> (the divisor counted as \<open>+0\<close>).
\<close>

fun np_div :: "npfloat \<Rightarrow> npfloat \<Rightarrow> npfloat" where
  "np_div (Fin a) (Fin b) =
     (if b \<noteq> 0 then Fin (a / b)
      else if a = 0 then NaN else if 0 < a then PInf else NInf)"
| "np_div NaN y = NaN"
| "np_div x NaN = NaN"
| "np_div (Fin a) PInf = Fin 0"
| "np_div (Fin a) NInf = Fin 0"
| "np_div PInf (Fin b) = (if 0 \<le> b then PInf else NInf)"
| "np_div NInf (Fin b) = (if 0 \<le> b then NInf else PInf)"
| "np_div PInf y = NaN"
| "np_div NInf y = NaN"

fun np_log :: "npfloat \<Rightarrow> npfloat" where
  "np_log (Fin a) = (if 0 < a then Fin (ln a) else if a = 0 then NInf else NaN)"
| "np_log PInf = PInf"
| "np_log NInf = NaN"
| "np_log NaN = NaN"

fun np_sqrt :: "npfloat \<Rightarrow> npfloat" where
  "np_sqrt (Fin a) = (if 0 \<le> a then Fin (sqrt a) else NaN)"
| "np_sqrt PInf = PInf"
| "np_sqrt NInf = NaN"
| "np_sqrt NaN = NaN"

fun np_maximum :: "npfloat \<Rightarrow> npfloat \<Rightarrow> npfloat" where
  "np_maximum (Fin a) (Fin b) = Fin (max a b)"
| "np_maximum NaN y = NaN"
| "np_maximum x NaN = NaN"
| "np_maximum PInf y = PInf"
| "np_maximum x PInf = PInf"
| "np_maximum NInf y = y"
| "np_maximum x NInf = x"

text \<open>The module constant \<open>e = np.e\<close> and \<open>np.float_power\<close> on a positive base.\<close>

definition e_const :: real where
  "e_const = exp 1"

definition np_float_power :: "real \<Rightarrow> real \<Rightarrow> real" where
  "np_float_power b x = b powr x"

text \<open>
  \<open>scipy.stats.norm.cdf\<close> is library code: its values on finite arguments are the
  parameter \<open>Phi\<close>; at the special values it returns 1, 0 and NaN.
\<close>

fun norm_cdf :: "(real \<Rightarrow> real) \<Rightarrow> npfloat \<Rightarrow> npfloat" where
  "norm_cdf Phi (Fin a) = Fin (Phi a)"
| "norm_cdf Phi PInf = Fin 1"
| "norm_cdf Phi NInf = Fin 0"
| "norm_cdf Phi NaN = NaN"

text \<open>
  The distribution function itself, for closed instances: the standard normal distribution
  function, by its Maclaurin series.
\<close>

definition std_normal_cdf :: "real \<Rightarrow> real" where
  "std_normal_cdf x =
     1 / 2 + (1 / sqrt (2 * pi)) *
       (\<Sum>n. (- 1) ^ n * x ^ (2 * n + 1) / (fact n * 2 ^ n * real (2 * n + 1)))"

text \<open>
  The power \<open>x ** n\<close> of a Python float raises \<open>OverflowError\<close> when the result is beyond
  the largest finite float64, \<open>(2^53 - 1) * 2^971\<close>; for a square that is from
  \<open>|x| = 2^512\<close> on, about \<open>1.34e154\<close>. (The operators \<open>+\<close>, \<open>*\<close> and \<open>/\<close> of Python
  floats never raise on overflow.)
\<close>

definition float_max :: real where
  "float_max = (2 ^ 53 - 1) * 2 ^ 971"

definition py_pow :: "real \<Rightarrow> nat \<Rightarrow> error + real" where
  "py_pow x n = (if float_max < \<bar>x ^ n\<bar> then Inl OverflowError else Inr (x ^ n))"

section \<open>The Option class\<close>

record Option_obj =
  K :: real
  T :: real
  S_0 :: real
  r :: real
  sigma :: real
  putOrcall :: string

text \<open>\<open>str.lower\<close> on ASCII text: the letters A to Z move to a to z.\<close>

definition lower_char :: "char \<Rightarrow> char" where
  "lower_char c =
     (if 65 \<le> (of_char c :: nat) \<and> (of_char c :: nat) \<le> 90
      then char_of ((of_char c :: nat) + 32) else c)"

definition str_lower :: "string \<Rightarrow> string" where
  "str_lower s = map lower_char s"

text \<open>\<open>Option.__init__\<close>: stores its arguments, the kind lowercased; it checks nothing.\<close>

definition Option_init ::
  "real \<Rightarrow> real \<Rightarrow> real \<Rightarrow> real \<Rightarrow> real \<Rightarrow> string \<Rightarrow> error + Option_obj" where
  "Option_init K' T' S_0' r' sigma' putOrCall =
     Inr \<lparr>K = K', T = T', S_0 = S_0', r = r', sigma = sigma',
          putOrcall = str_lower putOrCall\<rparr>"

text \<open>
  A local variable of a Python function has no binding until it is assigned; reading it
  before that raises \<open>UnboundLocalError\<close>.
\<close>

definition read_local :: "'a option \<Rightarrow> ('a \<Rightarrow> error + 'b) \<Rightarrow> error + 'b" where
  "read_local v f = (case v of None \<Rightarrow> Inl UnboundLocalError | Some x \<Rightarrow> f x)"

text \<open>
  \<open>Option.calc_black_scholes_merton\<close>. The first statement evaluates, in this order, the
  quotient \<open>S_0 / K\<close> of Python floats, which raises on a zero divisor, and the power
  \<open>sigma ** 2\<close> of a Python float, which raises on overflow; \<open>np.log\<close>, \<open>np.sqrt\<close> and
  every operation on their results are NumPy's and raise nothing. The local
  \<open>discount_factor\<close> is assigned in the call branch only; both return statements read it.
\<close>

definition calc_black_scholes_merton ::
  "Option_obj \<Rightarrow> (real \<Rightarrow> real) \<Rightarrow> error + npfloat" where
  "calc_black_scholes_merton self Phi =
     (if K self = 0 then Inl ZeroDivisionError
      else
        case py_pow (sigma self) 2 of
          Inl err \<Rightarrow> Inl err
        | Inr sigma_sq \<Rightarrow>
            let d_1 = np_div
                        (np_add (np_log (Fin (S_0 self / K self)))
                                (Fin ((r self + sigma_sq / 2) * T self)))
                        (np_mul (Fin (sigma self)) (np_sqrt (Fin (T self))));
                d_2 = np_sub d_1 (np_mul (Fin (sigma self)) (np_sqrt (Fin (T self))));
                discount_factor = None
            in if putOrcall self = ''call'' then
                 let discount_factor = Some (- r self * T self)
                 in read_local discount_factor (\<lambda>df.
                      Inr (np_sub (np_mul (Fin (S_0 self)) (norm_cdf Phi d_1))
                                  (np_mul (Fin (K self * np_float_power e_const df)) d_2)))
               else
                 read_local discount_factor (\<lambda>df.
                   Inr (np_sub (np_mul (Fin (K self * np_float_power e_const df))
                                       (norm_cdf Phi (np_neg d_2)))
                               (np_mul (Fin (S_0 self)) (norm_cdf Phi (np_neg d_1))))))"

section \<open>Monte Carlo simulation\<close>

text \<open>
  The process-wide generator behind \<open>np.random.normal\<close> is modelled by the stream of
  standard normal variates it has yet to hand out. A call with mean \<open>loc\<close>, standard
  deviation \<open>scale\<close> and \<open>size\<close> takes the next \<open>size\<close> variates \<open>z\<close>, returns
  \<open>loc + scale * z\<close> for each and leaves the rest of the stream.
\<close>

type_synonym rng = "nat \<Rightarrow> real"

definition np_random_normal :: "real \<Rightarrow> npfloat \<Rightarrow> nat \<Rightarrow> rng \<Rightarrow> npfloat list \<times> rng" where
  "np_random_normal loc scale sz g =
     (map (\<lambda>i. np_add (Fin loc) (np_mul scale (Fin (g i)))) [0..<sz],
      \<lambda>i. g (i + sz))"

text \<open>
  The running level \<open>S_t\<close> is the Python float \<open>option.S_0\<close> before the first step and
  an array afterwards; NumPy broadcasts a scalar operand over an array. Two arrays are
  added elementwise; in \<open>simulate\<close> both always have \<open>num_simulations\<close> elements.
\<close>

datatype ndval = Scalar npfloat | Vector "npfloat list"

fun nd_add_scalar :: "ndval \<Rightarrow> real \<Rightarrow> ndval" where
  "nd_add_scalar (Scalar a) c = Scalar (np_add a (Fin c))"
| "nd_add_scalar (Vector xs) c = Vector (map (\<lambda>x. np_add x (Fin c)) xs)"

fun nd_add_array :: "ndval \<Rightarrow> npfloat list \<Rightarrow> npfloat list" where
  "nd_add_array (Scalar a) ys = map (np_add a) ys"
| "nd_add_array (Vector xs) ys = map2 np_add xs ys"

text \<open>The \<open>while n <= num_simulations\<close> loop of \<open>simulate\<close>, one call per test of its condition.\<close>

function simulate_loop ::
  "int \<Rightarrow> Option_obj \<Rightarrow> real \<Rightarrow> int \<Rightarrow> ndval \<Rightarrow> npfloat list list \<Rightarrow> rng
     \<Rightarrow> npfloat list list \<times> rng" where
  "simulate_loop num_simulations opt dt n S_t simulated_paths g =
     (if n \<le> num_simulations then
        let (delta_z, g') = np_random_normal 0 (np_sqrt (Fin dt)) (nat num_simulations) g;
            d_S = nd_add_array (nd_add_scalar S_t (r opt * dt))
                    (map (np_mul (Fin (sigma opt * S_0 opt))) delta_z)
        in simulate_loop num_simulations opt dt (n + 1) (Vector d_S)
             (simulated_paths @ [d_S]) g'
      else (simulated_paths, g))"
  by pat_completeness auto
termination
  by (relation "measure (\<lambda>(num_simulations, opt, dt, n, S_t, simulated_paths, g).
        nat (num_simulations + 1 - n))") auto

definition simulate :: "int \<Rightarrow> Option_obj \<Rightarrow> real \<Rightarrow> rng \<Rightarrow> npfloat list list \<times> rng" where
  "simulate num_simulations opt dt g =
     simulate_loop num_simulations opt dt 1 (Scalar (Fin (S_0 opt))) [] g"

section \<open>Discounted expected payoff\<close>

text \<open>
  \<open>np.average\<close> without weights is the sum of all elements of the array divided by their
  number, by NumPy's division: on an array with no element it is \<open>0/0\<close>.
\<close>

definition np_average :: "npfloat list list \<Rightarrow> npfloat" where
  "np_average a =
     np_div (foldl np_add (Fin 0) (concat a)) (Fin (real (length (concat a))))"

definition calc_expected_price :: "npfloat list list \<Rightarrow> Option_obj \<Rightarrow> error + npfloat" where
  "calc_expected_price simulated_paths opt =
     (let payoffs =
            (if putOrcall opt = ''call''
             then map (map (\<lambda>v. np_maximum (np_sub v (Fin (K opt))) (Fin 0))) simulated_paths
             else map (map (\<lambda>v. np_maximum (np_sub (Fin (K opt)) v) (Fin 0))) simulated_paths);
          discount_factor = - 1 * r opt * T opt;
          expected_payoff =
            np_mul (np_average payoffs) (Fin (np_float_power e_const discount_factor))
      in Inr expected_payoff)"

section \<open>The recurrence of the specification\<close>

text \<open>
  The shock vector of step \<open>n\<close> (counted from 0): the \<open>n\<close>-th block of \<open>N\<close> variates of the
  stream, each scaled by \<open>sqrt dt\<close>.
\<close>

definition shocks :: "rng \<Rightarrow> real \<Rightarrow> nat \<Rightarrow> nat \<Rightarrow> real list" where
  "shocks g dt N n = map (\<lambda>i. sqrt dt * g (n * N + i)) [0..<N]"

text \<open>
  The rows as the specification describes them: the first is
  \<open>S0 + r * dt + sigma * S0 * Z\<close> on the scalar \<open>S0\<close>, every later one adds
  \<open>r * dt + sigma * S0 * Z\<close> elementwise to the row before it.
\<close>

fun spec_row :: "real \<Rightarrow> real \<Rightarrow> real \<Rightarrow> (nat \<Rightarrow> real list) \<Rightarrow> nat \<Rightarrow> real list" where
  "spec_row S0 drift vol Z 0 = map (\<lambda>z. S0 + drift + vol * z) (Z 0)"
| "spec_row S0 drift vol Z (Suc n) =
     map2 (\<lambda>p z. p + drift + vol * z) (spec_row S0 drift vol Z n) (Z (Suc n))"

text \<open>The elementwise payoff of the specification, on a real value.\<close>

definition payoff :: "Option_obj \<Rightarrow> real \<Rightarrow> real" where
  "payoff opt v = (if putOrcall opt = ''call'' then max (v - K opt) 0 else max (K opt - v) 0)"

text \<open>
  The running level on entry to step \<open>k\<close> (counted from 0): the scalar spot before the
  first step, the row of the step before otherwise.
\<close>

definition level_at :: "Option_obj \<Rightarrow> real \<Rightarrow> rng \<Rightarrow> nat \<Rightarrow> nat \<Rightarrow> ndval" where
  "level_at opt dt g N k =
     (case k of 0 \<Rightarrow> Scalar (Fin (S_0 opt))
      | Suc j \<Rightarrow> Vector (map Fin (spec_row (S_0 opt) (r opt * dt) (sigma opt * S_0 opt)
                                   (shocks g dt N) j)))"

section \<open>Auxiliary facts\<close>

declare simulate_loop.simps [simp del]

lemma py_pow_square:
  "py_pow x 2 = (if float_max < x\<^sup>2 then Inl OverflowError else Inr (x\<^sup>2))"
  by (simp add: py_pow_def)

lemma float_max_ge_one: "1 \<le> float_max"
  by (simp add: float_max_def)

lemma float_max_lt_huge: "float_max < (10 ^ 200)\<^sup>2"
  by (simp add: float_max_def)

lemma float_power_e: "np_float_power e_const x = exp x"
  by (simp add: np_float_power_def e_const_def powr_def)

lemma std_normal_cdf_0: "std_normal_cdf 0 = 1 / 2"
  by (simp add: std_normal_cdf_def)

lemma np_div_zero_not_finite: "\<not> is_finite (np_div x (Fin 0))"
  by (cases x) simp_all

lemma np_sub_zero: "np_sub x (Fin 0) = x"
  by (cases x) (simp_all add: np_sub_def)

lemma np_div_nan: "np_div x NaN = NaN"
  by (cases x) simp_all

lemma np_sub_nan: "np_sub x NaN = NaN"
  by (cases x) (simp_all add: np_sub_def)

lemma call_value_not_finite:
  assumes "\<not> is_finite d" and "c \<noteq> 0"
  shows "\<not> is_finite (np_sub (np_mul (Fin s) (norm_cdf Phi d)) (np_mul (Fin c) d))"
  using assms by (cases d) (simp_all add: np_sub_def inf_times_def)

lemma denominator_zero_or_nan:
  assumes "sigma self = 0 \<or> T self = 0"
  shows "np_mul (Fin (sigma self)) (np_sqrt (Fin (T self))) = Fin 0
       \<or> np_mul (Fin (sigma self)) (np_sqrt (Fin (T self))) = NaN"
  using assms by auto

lemma length_shocks: "length (shocks g dt N n) = N"
  by (simp add: shocks_def)

lemma length_spec_row:
  "(\<And>m. length (Z m) = N) \<Longrightarrow> length (spec_row S0 drift vol Z n) = N"
  by (induction n) simp_all

text \<open>A draw with a positive \<open>dt\<close>: finite values, the next block of the stream.\<close>

lemma draw_finite:
  assumes "0 < dt"
  shows "np_random_normal 0 (np_sqrt (Fin dt)) N (\<lambda>i. g (i + k * N))
           = (map Fin (shocks g dt N k), \<lambda>i. g (i + Suc k * N))"
  using assms
  by (auto simp add: np_random_normal_def shocks_def add.commute fun_eq_iff add.assoc)

lemma first_row:
  "nd_add_array (nd_add_scalar (Scalar (Fin S0)) c) (map (np_mul (Fin vol)) (map Fin zs))
     = map Fin (map (\<lambda>z. S0 + c + vol * z) zs)"
  by simp

lemma next_row:
  "nd_add_array (nd_add_scalar (Vector (map Fin ps)) c) (map (np_mul (Fin vol)) (map Fin zs))
     = map Fin (map2 (\<lambda>p z. p + c + vol * z) ps zs)"
  by (auto simp add: zip_map_map)

lemma step_row:
  "nd_add_array (nd_add_scalar (level_at opt dt g N k) (r opt * dt))
       (map (np_mul (Fin (sigma opt * S_0 opt))) (map Fin (shocks g dt N k)))
     = map Fin (spec_row (S_0 opt) (r opt * dt) (sigma opt * S_0 opt) (shocks g dt N) k)"
  using first_row next_row by (cases k) (simp_all add: level_at_def del: map_map)

text \<open>
  The loop invariant: entered for step \<open>k\<close> with the level of that step and the stream
  advanced by \<open>k\<close> blocks, the loop appends the rows \<open>k\<close> to \<open>N - 1\<close> of the recurrence.
\<close>

lemma simulate_loop_rows:
  assumes "0 < dt"
  shows "k \<le> N \<Longrightarrow>
     simulate_loop (int N) opt dt (int k + 1) (level_at opt dt g N k) acc (\<lambda>i. g (i + k * N))
       = (acc @ map (\<lambda>n. map Fin (spec_row (S_0 opt) (r opt * dt) (sigma opt * S_0 opt)
                                    (shocks g dt N) n)) [k..<N],
          \<lambda>i. g (i + N * N))"
proof (induction "N - k" arbitrary: k acc)
  case 0
  then have "k = N" by simp
  then show ?case
    by (subst simulate_loop.simps) simp
next
  case (Suc d)
  then have lt: "k < N" and d: "d = N - Suc k" and le: "Suc k \<le> N" by simp_all
  have lev: "Vector (map Fin (spec_row (S_0 opt) (r opt * dt) (sigma opt * S_0 opt)
                (shocks g dt N) k)) = level_at opt dt g N (Suc k)"
    by (simp add: level_at_def)
  have ih: "simulate_loop (int N) opt dt (int (Suc k) + 1) (level_at opt dt g N (Suc k)) acc'
             (\<lambda>i. g (i + Suc k * N))
       = (acc' @ map (\<lambda>n. map Fin (spec_row (S_0 opt) (r opt * dt) (sigma opt * S_0 opt)
                                    (shocks g dt N) n)) [Suc k..<N],
          \<lambda>i. g (i + N * N))" for acc'
    using Suc.hyps(1) [OF d le] .
  have cond: "int k + 1 \<le> int N" using lt by simp
  have nxt: "int k + 1 + 1 = int (Suc k) + 1" by simp
  show ?case
    apply (subst simulate_loop.simps)
    apply (simp only: cond if_True nat_int draw_finite [OF assms] Let_def prod.case
        step_row lev nxt ih)
    using lt by (simp add: upt_conv_Cons)
qed

lemma simulate_rows:
  assumes "0 < dt" and "0 \<le> N"
  shows "simulate N opt dt g =
     (map (\<lambda>n. map Fin (spec_row (S_0 opt) (r opt * dt) (sigma opt * S_0 opt)
                          (shocks g dt (nat N)) n)) [0..<nat N],
      \<lambda>i. g (i + nat N * nat N))"
  using simulate_loop_rows [OF assms(1), of 0 "nat N" opt g "[]"] assms(2)
  by (simp add: simulate_def level_at_def)

lemma foldl_np_add_finite: "foldl np_add (Fin a) (map Fin xs) = Fin (a + sum_list xs)"
  by (induction xs arbitrary: a) (simp_all add: add.assoc)

lemma np_average_finite:
  assumes "concat vs \<noteq> []"
  shows "np_average (map (map Fin) vs) = Fin (sum_list (concat vs) / real (length (concat vs)))"
proof -
  have "concat (map (map Fin) vs) = map Fin (concat vs)"
    by (simp add: map_concat)
  then show ?thesis
    using assms by (simp add: np_average_def foldl_np_add_finite)
qed

lemma payoffs_finite:
  "(if putOrcall opt = ''call''
    then map (map (\<lambda>v. np_maximum (np_sub v (Fin (K opt))) (Fin 0))) (map (map Fin) vs)
    else map (map (\<lambda>v. np_maximum (np_sub (Fin (K opt)) v) (Fin 0))) (map (map Fin) vs))
   = map (map Fin) (map (map (payoff opt)) vs)"
  by (simp add: payoff_def np_sub_def comp_def)

lemma expected_price_finite:
  assumes "concat vs \<noteq> []"
  shows "calc_expected_price (map (map Fin) vs) opt =
     Inr (Fin (sum_list (map (payoff opt) (concat vs)) / real (length (concat vs))
               * exp (- (r opt * T opt))))"
proof -
  have ne: "concat (map (map (payoff opt)) vs) \<noteq> []"
    using assms by (simp add: map_concat [symmetric])
  have cc: "concat (map (map (payoff opt)) vs) = map (payoff opt) (concat vs)"
    by (simp add: map_concat)
  show ?thesis
    unfolding calc_expected_price_def Let_def payoffs_finite np_average_finite [OF ne] cc
    by (simp add: float_power_e)
qed

lemma sum_list_const:
  "(\<forall>x \<in> set xs. f x = c) \<Longrightarrow> sum_list (map f xs) = real (length xs) * c"
  by (induction xs) (simp_all add: algebra_simps)

lemma np_average_empty:
  assumes "concat a = []"
  shows "np_average a = NaN"
  unfolding np_average_def assms by simp

lemma concat_map_map_empty:
  assumes "concat a = []"
  shows "concat (map (map f) a) = []"
  unfolding map_concat [symmetric] assms by simp

lemma lower_banana: "str_lower ''Banana'' = ''banana''"
  by code_simp

section \<open>The closed-form valuation\<close>




text \<open>
  C2. For an option of kind \<open>put\<close> with \<open>sigma > 0\<close> and \<open>T > 0\<close> the valuation should
  return \<open>K * e^(-r*T) * Phi (-d2) - S0 * Phi (-d1)\<close>. The code does not: at strike 100,
  expiry 1, spot 100, rate 0.05 and volatility 0.2 the put branch reads
  \<open>discount_factor\<close>, which only the call branch assigns, and the call ends in an
  \<open>UnboundLocalError\<close>.
\<close>

theorem bsm_put_unbound_local:
  "calc_black_scholes_merton
     \<lparr>K = 100, T = 1, S_0 = 100, r = 5 / 100, sigma = 2 / 10, putOrcall = ''put''\<rparr>
     std_normal_cdf = Inl UnboundLocalError"
  using float_max_ge_one
  by (simp add: calc_black_scholes_merton_def py_pow_square read_local_def Let_def
      power2_eq_square)

text \<open>
  C3. For an option whose stored kind is not \<open>call\<close> the valuation is said to raise the
  unbound-local error whatever the numeric parameters are. Two parameters matter. For a
  put with strike 0 the quotient \<open>S_0 / K\<close> of the method's first statement raises
  \<open>ZeroDivisionError\<close>; for a put with strike 100 and volatility \<open>10^200\<close> the power
  \<open>sigma ** 2\<close> of the same statement raises \<open>OverflowError\<close>. In both cases the branch
  that reads \<open>discount_factor\<close> is not reached.
\<close>

theorem bsm_not_call_other_errors:
  "calc_black_scholes_merton
     \<lparr>K = 0, T = 1, S_0 = 100, r = 5 / 100, sigma = 2 / 10, putOrcall = ''put''\<rparr>
     std_normal_cdf = Inl ZeroDivisionError
   \<and> calc_black_scholes_merton
     \<lparr>K = 100, T = 1, S_0 = 100, r = 5 / 100, sigma = 10 ^ 200, putOrcall = ''put''\<rparr>
     std_normal_cdf = Inl OverflowError"
  using float_max_lt_huge
  by (simp add: calc_black_scholes_merton_def py_pow_square)

text \<open>
  C3, as the code has it. For every option whose stored kind is not \<open>call\<close>,
  \<open>calc_black_scholes_merton\<close> never returns a value. It raises \<open>ZeroDivisionError\<close>
  when the strike is zero, otherwise \<open>OverflowError\<close> when \<open>sigma^2\<close> is beyond the float
  range, and in every other case the \<open>UnboundLocalError\<close> of the unassigned
  \<open>discount_factor\<close>.
\<close>

theorem bsm_not_call_raises:
  assumes "putOrcall self \<noteq> ''call''"
  shows "calc_black_scholes_merton self Phi =
           Inl (if K self = 0 then ZeroDivisionError
                else if float_max < (sigma self)\<^sup>2 then OverflowError
                else UnboundLocalError)"
  using assms
  by (simp add: calc_black_scholes_merton_def py_pow_square read_local_def Let_def)

theorem bsm_not_call_raises_witness:
  "putOrcall \<lparr>K = 100, T = 1, S_0 = 100, r = 0, sigma = 1, putOrcall = ''put''\<rparr> \<noteq> ''call''
   \<and> calc_black_scholes_merton
         \<lparr>K = 100, T = 1, S_0 = 100, r = 0, sigma = 1, putOrcall = ''put''\<rparr> std_normal_cdf
       = Inl UnboundLocalError"
  using bsm_not_call_raises
    [of "\<lparr>K = 100, T = 1, S_0 = 100, r = 0, sigma = 1, putOrcall = ''put''\<rparr>" std_normal_cdf]
    float_max_ge_one
  by simp

text \<open>
  C7. With \<open>sigma = 0\<close> or \<open>T = 0\<close> the valuation should raise a domain error. The code
  has no such check: for a call with strike 1, spot 1, expiry 1, rate 0 and volatility 0
  the quotient \<open>d1\<close> is NumPy's \<open>0/0\<close> and the method returns NaN.
\<close>

theorem bsm_zero_sigma_returns_nan:
  "calc_black_scholes_merton
     \<lparr>K = 1, T = 1, S_0 = 1, r = 0, sigma = 0, putOrcall = ''call''\<rparr> std_normal_cdf
     = Inr NaN"
  using float_max_ge_one
  by (simp add: calc_black_scholes_merton_def py_pow_square read_local_def Let_def
      np_sub_def)

text \<open>
  C7, as the code has it. For every call option with a nonzero strike, a square
  \<open>sigma^2\<close> within the float range and \<open>sigma = 0\<close> or \<open>T = 0\<close>,
  \<open>calc_black_scholes_merton\<close> raises nothing and returns a value that is not finite: the
  NaN or the infinity that the division by zero in \<open>d1\<close> produces.
\<close>

theorem bsm_zero_denominator_no_error:
  assumes "putOrcall self = ''call''" and "K self \<noteq> 0"
    and "(sigma self)\<^sup>2 \<le> float_max"
    and "sigma self = 0 \<or> T self = 0"
  shows "\<exists>v. calc_black_scholes_merton self Phi = Inr v \<and> \<not> is_finite v"
proof -
  let ?den = "np_mul (Fin (sigma self)) (np_sqrt (Fin (T self)))"
  let ?num = "np_add (np_log (Fin (S_0 self / K self)))
                (Fin ((r self + (sigma self)\<^sup>2 / 2) * T self))"
  let ?d1 = "np_div ?num ?den"
  let ?d2 = "np_sub ?d1 ?den"
  have c: "K self * np_float_power e_const (- r self * T self) \<noteq> 0"
    using assms(2) by (simp add: float_power_e)
  from denominator_zero_or_nan [OF assms(4)]
  have "\<not> is_finite ?d1 \<and> ?d2 = ?d1"
  proof
    assume z: "?den = Fin 0"
    show ?thesis unfolding z by (simp add: np_div_zero_not_finite np_sub_zero)
  next
    assume n: "?den = NaN"
    show ?thesis unfolding n by (simp add: np_div_nan np_sub_nan)
  qed
  then have "\<not> is_finite (np_sub (np_mul (Fin (S_0 self)) (norm_cdf Phi ?d1))
                 (np_mul (Fin (K self * np_float_power e_const (- r self * T self))) ?d2))"
    using call_value_not_finite [OF _ c] by simp
  then show ?thesis
    using assms(1,2,3)
    by (simp add: calc_black_scholes_merton_def py_pow_square read_local_def Let_def)
qed

theorem bsm_zero_denominator_no_error_witness:
  "putOrcall \<lparr>K = 1, T = 0, S_0 = 2, r = 0, sigma = 1, putOrcall = ''call''\<rparr> = ''call''
   \<and> K \<lparr>K = 1, T = 0, S_0 = 2, r = 0, sigma = 1, putOrcall = ''call''\<rparr> \<noteq> 0
   \<and> (sigma \<lparr>K = 1, T = 0, S_0 = 2, r = 0, sigma = 1, putOrcall = ''call''\<rparr>)\<^sup>2
         \<le> float_max
   \<and> T \<lparr>K = 1, T = 0, S_0 = 2, r = 0, sigma = 1, putOrcall = ''call''\<rparr> = 0
   \<and> (\<exists>v. calc_black_scholes_merton
         \<lparr>K = 1, T = 0, S_0 = 2, r = 0, sigma = 1, putOrcall = ''call''\<rparr> std_normal_cdf
           = Inr v \<and> \<not> is_finite v)"
  using bsm_zero_denominator_no_error
    [of "\<lparr>K = 1, T = 0, S_0 = 2, r = 0, sigma = 1, putOrcall = ''call''\<rparr>" std_normal_cdf]
    float_max_ge_one
  by simp

section \<open>The simulated paths\<close>

text \<open>
  C4. For every positive \<open>N\<close>, every option and every \<open>dt > 0\<close>, \<open>simulate N option dt\<close>
  returns exactly \<open>N\<close> rows, each row has exactly \<open>N\<close> elements, and so there are \<open>N * N\<close>
  sampled values in all.
\<close>

theorem simulate_shape:
  assumes "0 < N" and "0 < dt"
  shows "length (fst (simulate N opt dt g)) = nat N
       \<and> (\<forall>row \<in> set (fst (simulate N opt dt g)). length row = nat N)
       \<and> length (concat (fst (simulate N opt dt g))) = nat N * nat N"
  using assms
  by (auto simp add: simulate_rows length_spec_row length_shocks length_concat comp_def
      sum_list_triv)

theorem simulate_shape_witness:
  "(0::int) < 2 \<and> (0::real) < 1
   \<and> length (fst (simulate 2
        \<lparr>K = 100, T = 1, S_0 = 10, r = 1, sigma = 1, putOrcall = ''call''\<rparr> 1 real)) = 2
   \<and> length (concat (fst (simulate 2
        \<lparr>K = 100, T = 1, S_0 = 10, r = 1, sigma = 1, putOrcall = ''call''\<rparr> 1 real))) = 4"
  using simulate_shape
    [of 2 1 "\<lparr>K = 100, T = 1, S_0 = 10, r = 1, sigma = 1, putOrcall = ''call''\<rparr>" real]
  by simp

text \<open>
  C5. For every positive \<open>N\<close>, every option, every \<open>dt > 0\<close> and every stream of draws,
  with \<open>Z n\<close> the shock vector of step \<open>n\<close> (the draws of that step scaled by \<open>sqrt dt\<close>), the
  rows of \<open>simulate\<close> are those of the recurrence \<open>spec_row\<close>: the first row is
  \<open>S0 + r * dt + sigma * S0 * Z\<close> on the scalar \<open>S0\<close>, and every later row is the row before
  it plus \<open>r * dt + sigma * S0 * Z\<close>, elementwise. All values are finite.
\<close>

theorem simulate_recurrence:
  assumes "0 < N" and "0 < dt"
  shows "fst (simulate N opt dt g) =
     map (\<lambda>n. map Fin (spec_row (S_0 opt) (r opt * dt) (sigma opt * S_0 opt)
                         (shocks g dt (nat N)) n)) [0..<nat N]"
  using assms by (simp add: simulate_rows)

theorem simulate_recurrence_witness:
  "(0::int) < 2 \<and> (0::real) < 1
   \<and> fst (simulate 2
        \<lparr>K = 100, T = 1, S_0 = 10, r = 1, sigma = 1, putOrcall = ''call''\<rparr> 1 real)
       = [[Fin 11, Fin 21], [Fin 32, Fin 52]]"
  using simulate_recurrence
    [of 2 1 "\<lparr>K = 100, T = 1, S_0 = 10, r = 1, sigma = 1, putOrcall = ''call''\<rparr>" real]
  by (simp add: shocks_def upt_conv_Cons eval_nat_numeral)

text \<open>
  C10. For every option and every \<open>dt\<close>, \<open>simulate 0 option dt\<close> returns the empty sequence
  and raises nothing: the loop condition \<open>1 <= 0\<close> fails at once, no draw is made and the
  generator is left as it was.
\<close>

theorem simulate_zero:
  "simulate 0 opt dt g = ([], g)"
  by (simp add: simulate_def simulate_loop.simps)

section \<open>The price estimate\<close>

text \<open>
  C6. For every array of (finite) simulated values with at least one element and every
  option, \<open>calc_expected_price\<close> returns the arithmetic mean over all values \<open>v\<close> of the payoff,
  times \<open>e^(-r*T)\<close>; the payoff is \<open>max (v - K) 0\<close> for the kind \<open>call\<close> and
  \<open>max (K - v) 0\<close> for every other kind. In particular, when every value is \<open>V\<close>, the kind
  is \<open>call\<close> and \<open>K < V\<close>, the result is \<open>(V - K) * e^(-r*T)\<close>.
\<close>

theorem expected_price_mean:
  assumes "concat vs \<noteq> []"
  shows "calc_expected_price (map (map Fin) vs) opt =
           Inr (Fin (sum_list (map (payoff opt) (concat vs)) / real (length (concat vs))
                     * exp (- (r opt * T opt))))
       \<and> (putOrcall opt = ''call'' \<and> K opt < V \<and> (\<forall>v \<in> set (concat vs). v = V)
            \<longrightarrow> calc_expected_price (map (map Fin) vs) opt =
                  Inr (Fin ((V - K opt) * exp (- (r opt * T opt)))))"
proof (intro conjI impI)
  show "calc_expected_price (map (map Fin) vs) opt =
           Inr (Fin (sum_list (map (payoff opt) (concat vs)) / real (length (concat vs))
                     * exp (- (r opt * T opt))))"
    by (rule expected_price_finite [OF assms])
next
  assume a: "putOrcall opt = ''call'' \<and> K opt < V \<and> (\<forall>v \<in> set (concat vs). v = V)"
  then have "\<forall>v \<in> set (concat vs). payoff opt v = V - K opt"
    by (auto simp add: payoff_def)
  then have "sum_list (map (payoff opt) (concat vs)) = real (length (concat vs)) * (V - K opt)"
    by (rule sum_list_const)
  moreover have "real (length (concat vs)) \<noteq> 0" using assms by simp
  ultimately show "calc_expected_price (map (map Fin) vs) opt =
                  Inr (Fin ((V - K opt) * exp (- (r opt * T opt))))"
    by (simp add: expected_price_finite [OF assms])
qed

theorem expected_price_mean_witness:
  "concat [[3, 3], [3, 3::real]] \<noteq> []
   \<and> calc_expected_price (map (map Fin) [[3, 3], [3, 3]])
        \<lparr>K = 1, T = 1, S_0 = 1, r = 0, sigma = 1, putOrcall = ''call''\<rparr> = Inr (Fin 2)"
  using expected_price_mean [of "[[3, 3], [3, 3]]"
      "\<lparr>K = 1, T = 1, S_0 = 1, r = 0, sigma = 1, putOrcall = ''call''\<rparr>" 3]
  by (simp add: payoff_def)

text \<open>
  C8. On an empty collection of simulated values \<open>calc_expected_price\<close> should fail with an
  error. The code has no such check: on the empty array, for a call with strike 100, the
  mean is NumPy's \<open>0/0\<close> and the function returns NaN.
\<close>

theorem empty_input_returns_nan:
  "calc_expected_price []
     \<lparr>K = 100, T = 1, S_0 = 100, r = 5 / 100, sigma = 2 / 10, putOrcall = ''call''\<rparr> = Inr NaN"
  by (simp add: calc_expected_price_def Let_def np_average_def)

text \<open>
  C8, as the code has it. For every option, \<open>calc_expected_price\<close> applied to a
  collection with no simulated value raises nothing and returns NaN, the mean of no
  values.
\<close>

theorem expected_price_no_values:
  assumes "concat simulated_paths = []"
  shows "calc_expected_price simulated_paths opt = Inr NaN"
  unfolding calc_expected_price_def Let_def
  by (simp add: np_average_empty [OF concat_map_map_empty [OF assms]])

theorem expected_price_no_values_witness:
  "concat ([] :: npfloat list list) = []
   \<and> calc_expected_price []
        \<lparr>K = 1, T = 1, S_0 = 1, r = 0, sigma = 1, putOrcall = ''put''\<rparr> = Inr NaN"
  using expected_price_no_values
    [of "[]" "\<lparr>K = 1, T = 1, S_0 = 1, r = 0, sigma = 1, putOrcall = ''put''\<rparr>"]
  by simp

section \<open>Construction\<close>

text \<open>
  C9. A kind whose lowercased form is neither \<open>call\<close> nor \<open>put\<close> should make the
  construction of an option fail. The constructor checks nothing: the kind \<open>Banana\<close> is
  accepted and stored as \<open>banana\<close>.
\<close>

theorem init_accepts_unknown_kind:
  "Option_init 100 1 100 0 1 ''Banana''
     = Inr \<lparr>K = 100, T = 1, S_0 = 100, r = 0, sigma = 1, putOrcall = ''banana''\<rparr>"
  by (simp add: Option_init_def lower_banana)

text \<open>
  C9, as the code has it. For every kind string whose lowercased form is neither \<open>call\<close>
  nor \<open>put\<close>, constructing an option succeeds and stores the lowercased kind; the price
  estimate then takes the branch of every kind other than \<open>call\<close> and prices the object
  as a put.
\<close>

theorem init_unknown_kind_is_put:
  assumes "str_lower kind \<notin> {''call'', ''put''}"
  shows "Option_init k t s rate vol kind
           = Inr \<lparr>K = k, T = t, S_0 = s, r = rate, sigma = vol, putOrcall = str_lower kind\<rparr>
       \<and> calc_expected_price paths
           \<lparr>K = k, T = t, S_0 = s, r = rate, sigma = vol, putOrcall = str_lower kind\<rparr>
         = calc_expected_price paths
           \<lparr>K = k, T = t, S_0 = s, r = rate, sigma = vol, putOrcall = ''put''\<rparr>"
  using assms by (simp add: Option_init_def calc_expected_price_def)

theorem init_unknown_kind_is_put_witness:
  "str_lower ''Banana'' \<notin> {''call'', ''put''}
   \<and> Option_init 100 1 100 0 1 ''Banana''
       = Inr \<lparr>K = 100, T = 1, S_0 = 100, r = 0, sigma = 1, putOrcall = ''banana''\<rparr>
   \<and> calc_expected_price [[Fin 90, Fin 120]]
           \<lparr>K = 100, T = 1, S_0 = 100, r = 0, sigma = 1, putOrcall = ''banana''\<rparr>
       = Inr (Fin 5)"
  using init_unknown_kind_is_put [of "''Banana''" 100 1 100 0 1 "[[Fin 90, Fin 120]]"]
  by (simp add: lower_banana calc_expected_price_def np_average_def np_sub_def float_power_e)

end
